theory Spec2Isabelle
  imports Main
begin

section \<open>KeyHandler (packages/grid/src/KeyHandler.ts)\<close>

text \<open>
  The class has one field, \<open>order\<close>. The constructor's parameter has the default value
  5000: it is taken when the argument is left out (or is \<open>undefined\<close>), which the model
  writes as \<open>None\<close>. The priorities are whole numbers, so \<open>order\<close> is an \<open>int\<close>.
\<close>

record KeyHandler =
  order :: int

definition KeyHandler_new :: "int option \<Rightarrow> KeyHandler" where
  "KeyHandler_new order_arg =
     \<lparr>order = (case order_arg of None \<Rightarrow> 5000 | Some n \<Rightarrow> n)\<rparr>"

text \<open>
  \<open>onDown(event, grid)\<close> of the base class ignores both arguments and returns
  \<open>false\<close>. The event and the grid are values of the host framework; the model is
  polymorphic in them.
\<close>

definition onDown :: "KeyHandler \<Rightarrow> 'event \<Rightarrow> 'grid \<Rightarrow> bool" where
  "onDown this event grid = False"

section \<open>IrisGridCopyHandler (packages/iris-grid/src/IrisGridCopyHandler.tsx)\<close>

subsection \<open>Copy operations\<close>

text \<open>
  \<open>CopyOperation = CopyRangesOperation | CopyHeaderOperation\<close> is a union of object types
  with no tag: the code tells the variants apart by testing whether the field \<open>ranges\<close>,
  respectively \<open>columnIndex\<close>, is not null. An operation is therefore one record in which
  these two fields are optional (\<open>None\<close> is JavaScript's absent, \<open>undefined\<close> or
  \<open>null\<close>), as are the fields the types declare optional (\<open>error?\<close>,
  \<open>formatValues?\<close>). The remaining fields have their declared types; the code reads
  them only on the path of the variant that declares them.

  \<open>GridRange\<close>, \<open>MoveOperation\<close> and \<open>ModelSizeMap\<close> are types of the grid package,
  which the handler only passes on: they are the type parameters \<open>'r\<close>, \<open>'m\<close> and
  \<open>'w\<close>. The field \<open>error\<close> of \<open>CommonCopyOperation\<close> is called \<open>opError\<close> here,
  since the handler's state has a field \<open>error\<close> of its own.
\<close>

record ('r, 'm, 'w) CopyOperation =
  movedColumns :: "'m list"
  opError :: "string option"
  ranges :: "'r list option"
  includeHeaders :: bool
  formatValues :: "bool option"
  userColumnWidths :: "'w"
  columnIndex :: "int option"
  columnDepth :: int

definition isCopyRangesOperation :: "('r, 'm, 'w) CopyOperation \<Rightarrow> bool" where
  "isCopyRangesOperation copyOperation = (ranges copyOperation \<noteq> None)"

definition isCopyHeaderOperation :: "('r, 'm, 'w) CopyOperation \<Rightarrow> bool" where
  "isCopyHeaderOperation copyOperation = (columnIndex copyOperation \<noteq> None)"

subsection \<open>Constants\<close>

definition NO_PROMPT_THRESHOLD :: int where
  "NO_PROMPT_THRESHOLD = 10000"

definition HIDE_TIMEOUT :: nat where
  "HIDE_TIMEOUT = 3000"

datatype COPY_STATES =
    IDLE
  | CONFIRMATION_REQUIRED
  | FETCH_RANGES_IN_PROGRESS
  | FETCH_HEADER_IN_PROGRESS
  | FETCH_ERROR
  | CLICK_REQUIRED
  | DONE

datatype BUTTON_STATES = COPY | FETCH_IN_PROGRESS | CLICK_TO_COPY | RETRY

subsection \<open>Collaborators\<close>

text \<open>
  The handler calls functions of the grid package, of the model it is given as a prop,
  of the utilities package and of the browser. Their code is not part of the handler;
  they are parameters of the model, collected in one record. Each is taken to return
  normally. \<open>GridRange.rowCount\<close> is integer-valued. \<open>GridUtils.getModelRanges\<close>
  receives the field \<open>ranges\<close> as \<open>startFetch\<close> passes it, without a null test.
  \<open>toLocaleString\<close> is the number formatting of the host's locale.
\<close>

record ('r, 'm, 'w) externals =
  GridRange_rowCount :: "'r list \<Rightarrow> int"
  GridRange_makeColumn :: "int \<Rightarrow> 'r"
  GridRange_subtractRangesFromRanges :: "'r list \<Rightarrow> 'r list \<Rightarrow> 'r list"
  GridUtils_getModelIndex :: "int \<Rightarrow> 'm list \<Rightarrow> int"
  GridUtils_getModelRanges :: "'r list option \<Rightarrow> 'm list \<Rightarrow> 'r list"
  IrisGridUtils_getHiddenColumns :: "'w \<Rightarrow> int list"
  model_textForColumnHeader :: "int \<Rightarrow> int \<Rightarrow> string option"
  toLocaleString :: "int \<Rightarrow> string"

text \<open>
  The value formatter handed to \<open>model.textSnapshot\<close> is one of two closures: the
  model's \<open>displayString\<close>, or the template string \<open>`${value}`\<close>.
\<close>

datatype formatValue = DisplayString | TemplateString

text \<open>The calls the handler makes to the model and to the clipboard, in order.\<close>

datatype 'r call =
    TextForColumnHeader int int
  | TextSnapshot "'r list" bool formatValue
  | CopyToClipboard string

text \<open>
  What a cancelable promise wraps: the header text, a string that is already there, or
  the promise of \<open>model.textSnapshot\<close>.
\<close>

datatype fetch_source = HeaderText string | Snapshot

text \<open>
  \<open>copyText\<close> is awaited from two places, \<open>startFetch\<close> and \<open>handleCopyClick\<close>, and
  what runs when the clipboard write settles depends on which.
\<close>

datatype write_origin = FromFetch | FromClick

text \<open>
  The reason a fetch promise rejects with: \<open>CanceledPromiseError\<close>, or anything else.
\<close>

datatype rejection = CanceledPromiseError | OtherError

subsection \<open>The component\<close>

text \<open>
  One record holds the prop \<open>copyOperation\<close> (null by default), the React state
  (\<open>error\<close>, \<open>copyState\<close>, \<open>buttonState\<close>, \<open>isShown\<close>, \<open>rowCount\<close>), the instance
  fields (\<open>textData\<close>, \<open>hideTimer\<close>, \<open>fetchPromise\<close>) and the part of the host the
  handler acts on: the cancelable promises that are neither settled nor canceled, the
  timers that are scheduled (each with its delay in milliseconds), the clipboard
  writes that are not settled, the calls made so far, the number of rejections nobody
  handles, and the next fresh handle. Promises, timers and writes are named by numbers.
\<close>

record ('r, 'm, 'w) handler =
  copyOperation :: "('r, 'm, 'w) CopyOperation option"
  error :: "string option"
  copyState :: COPY_STATES
  buttonState :: BUTTON_STATES
  isShown :: bool
  rowCount :: int
  textData :: "string option"
  hideTimer :: "nat option"
  fetchPromise :: "nat option"
  pendingFetches :: "(nat \<times> fetch_source) list"
  pendingTimers :: "(nat \<times> nat) list"
  pendingWrites :: "(nat \<times> write_origin) list"
  calls :: "'r call list"
  unhandledRejections :: nat
  nextId :: nat

definition getStatusMessageText ::
  "('r, 'm, 'w) externals \<Rightarrow> COPY_STATES \<Rightarrow> int \<Rightarrow> string" where
  "getStatusMessageText ext copyState' rowCount' =
     (case copyState' of
        CONFIRMATION_REQUIRED \<Rightarrow>
          ''Are you sure you want to copy '' @ toLocaleString ext rowCount'
            @ '' rows to your clipboard?''
      | CLICK_REQUIRED \<Rightarrow> ''Fetched '' @ toLocaleString ext rowCount' @ '' rows!''
      | FETCH_ERROR \<Rightarrow> ''Unable to copy data.''
      | FETCH_RANGES_IN_PROGRESS \<Rightarrow>
          ''Fetching '' @ toLocaleString ext rowCount' @ '' rows for clipboard...''
      | FETCH_HEADER_IN_PROGRESS \<Rightarrow> ''Fetching header for clipboard...''
      | DONE \<Rightarrow> ''Copied to Clipboard!''
      | _ \<Rightarrow> [])"

definition getCopyButtonText :: "BUTTON_STATES \<Rightarrow> string" where
  "getCopyButtonText buttonState' =
     (case buttonState' of
        FETCH_IN_PROGRESS \<Rightarrow> ''Fetching''
      | CLICK_TO_COPY \<Rightarrow> ''Click to Copy''
      | RETRY \<Rightarrow> ''Retry''
      | _ \<Rightarrow> ''Copy'')"

text \<open>The constructor: the initial state, nothing outstanding.\<close>

definition constructor ::
  "('r, 'm, 'w) CopyOperation option \<Rightarrow> ('r, 'm, 'w) handler" where
  "constructor props_copyOperation =
     \<lparr>copyOperation = props_copyOperation,
      error = None, copyState = IDLE, buttonState = COPY, isShown = False, rowCount = 0,
      textData = None, hideTimer = None, fetchPromise = None,
      pendingFetches = [], pendingTimers = [], pendingWrites = [], calls = [],
      unhandledRejections = 0, nextId = 0\<rparr>"

text \<open>
  \<open>stopFetch\<close>: \<open>cancel()\<close> makes the promise reject with \<open>CanceledPromiseError\<close>; it
  is no longer pending, and what \<open>startFetch\<close> does when its await rejects so is
  \<open>startFetch_rejected CanceledPromiseError\<close> below.
\<close>

definition stopFetch :: "('r, 'm, 'w) handler \<Rightarrow> ('r, 'm, 'w) handler" where
  "stopFetch this =
     (case fetchPromise this of
        None \<Rightarrow> this
      | Some p \<Rightarrow>
          this\<lparr>pendingFetches := filter (\<lambda>x. fst x \<noteq> p) (pendingFetches this),
                fetchPromise := None\<rparr>)"

definition stopHideTimer :: "('r, 'm, 'w) handler \<Rightarrow> ('r, 'm, 'w) handler" where
  "stopHideTimer this =
     (case hideTimer this of
        None \<Rightarrow> this
      | Some t \<Rightarrow>
          this\<lparr>pendingTimers := filter (\<lambda>x. fst x \<noteq> t) (pendingTimers this),
                hideTimer := None\<rparr>)"

text \<open>\<open>setTimeout(handleHideTimeout, HIDE_TIMEOUT)\<close> schedules a timer under a fresh handle.\<close>

definition startHideTimer :: "('r, 'm, 'w) handler \<Rightarrow> ('r, 'm, 'w) handler" where
  "startHideTimer this =
     (let this1 = stopHideTimer this; t = nextId this1
      in this1\<lparr>pendingTimers := pendingTimers this1 @ [(t, HIDE_TIMEOUT)],
                hideTimer := Some t, nextId := Suc t\<rparr>)"

definition stopCopy :: "('r, 'm, 'w) handler \<Rightarrow> ('r, 'm, 'w) handler" where
  "stopCopy this = stopHideTimer (stopFetch (this\<lparr>textData := None\<rparr>))"

definition handleBackgroundClick :: "('r, 'm, 'w) handler \<Rightarrow> ('r, 'm, 'w) handler" where
  "handleBackgroundClick this =
     (if copyState this = DONE then this\<lparr>isShown := False\<rparr> else this)"

definition handleCancelClick :: "('r, 'm, 'w) handler \<Rightarrow> ('r, 'm, 'w) handler" where
  "handleCancelClick this = (stopFetch this)\<lparr>isShown := False\<rparr>"

definition handleHideTimeout :: "('r, 'm, 'w) handler \<Rightarrow> ('r, 'm, 'w) handler" where
  "handleHideTimeout this = (stopHideTimer this)\<lparr>isShown := False\<rparr>"

text \<open>
  Modelled from the spec: \<open>copyToClipboard\<close> of the utilities package, which is not
  among the sources: "\<open>writeText(string)\<close> -> asynchronous success/failure". The call
  is recorded and the write is pending under a fresh handle, together with the caller
  that awaits it.
\<close>

definition copyToClipboard ::
  "write_origin \<Rightarrow> string \<Rightarrow> ('r, 'm, 'w) handler \<Rightarrow> ('r, 'm, 'w) handler" where
  "copyToClipboard origin text' this =
     this\<lparr>calls := calls this @ [CopyToClipboard text'],
           pendingWrites := pendingWrites this @ [(nextId this, origin)],
           nextId := Suc (nextId this)\<rparr>"

text \<open>\<open>copyText\<close> up to its await: the text is cached and the clipboard write is issued.\<close>

definition copyText ::
  "write_origin \<Rightarrow> string \<Rightarrow> ('r, 'm, 'w) handler \<Rightarrow> ('r, 'm, 'w) handler" where
  "copyText origin text' this = copyToClipboard origin text' (this\<lparr>textData := Some text'\<rparr>)"

definition showCopyDone :: "('r, 'm, 'w) handler \<Rightarrow> ('r, 'm, 'w) handler" where
  "showCopyDone this = startHideTimer (this\<lparr>copyState := DONE\<rparr>)"

text \<open>
  Modelled from the spec: \<open>PromiseUtils.makeCancelable\<close> of the utilities package, which
  is not among the sources. It "wraps a pending asynchronous text production so it can
  be aborted, yielding a distinguished cancellation outcome distinct from ordinary
  failure". Here it registers a new pending promise, which \<open>startFetch\<close> stores in
  \<open>fetchPromise\<close>.
\<close>

definition makeCancelable ::
  "fetch_source \<Rightarrow> ('r, 'm, 'w) handler \<Rightarrow> ('r, 'm, 'w) handler" where
  "makeCancelable item this =
     this\<lparr>pendingFetches := pendingFetches this @ [(nextId this, item)],
           fetchPromise := Some (nextId this),
           nextId := Suc (nextId this)\<rparr>"

subsection \<open>The fetch stage\<close>

text \<open>
  \<open>startFetch\<close> is an async function. \<open>startFetch\<close> below is its body up to the
  \<open>await\<close> of the fetch promise (or up to its early return); the functions
  \<open>startFetch_fulfilled\<close>, \<open>startFetch_rejected\<close>, \<open>startFetch_copied\<close> and
  \<open>startFetch_copyFailed\<close> are what it does when the awaited promise settles.

  With the prop \<open>copyOperation\<close> null, the type guard reads a property of null: the
  TypeError rejects the promise \<open>startFetch\<close> returns, which no caller awaits.
\<close>

definition startFetch ::
  "('r, 'm, 'w) externals \<Rightarrow> ('r, 'm, 'w) handler \<Rightarrow> ('r, 'm, 'w) handler" where
  "startFetch ext this =
     (let this0 = stopFetch this in
      case copyOperation this0 of
        None \<Rightarrow> this0\<lparr>unhandledRejections := Suc (unhandledRejections this0)\<rparr>
      | Some copyOperation' \<Rightarrow>
          if isCopyHeaderOperation copyOperation' then
            (case columnIndex copyOperation' of
               None \<Rightarrow> this0
             | Some columnIndex' \<Rightarrow>
                 let this1 = this0\<lparr>buttonState := FETCH_IN_PROGRESS,
                                     copyState := FETCH_HEADER_IN_PROGRESS\<rparr>;
                     modelIndex =
                       GridUtils_getModelIndex ext columnIndex' (movedColumns copyOperation');
                     copyText' =
                       model_textForColumnHeader ext modelIndex (columnDepth copyOperation');
                     this2 = this1\<lparr>calls := calls this1 @
                       [TextForColumnHeader modelIndex (columnDepth copyOperation')]\<rparr>
                 in (case copyText' of
                       None \<Rightarrow>
                         this2\<lparr>fetchPromise := None,
                               error := Some ''Invalid column header selected.'',
                               copyState := DONE\<rparr>
                     | Some text' \<Rightarrow> makeCancelable (HeaderText text') this2))
          else
            (let this1 = this0\<lparr>buttonState := FETCH_IN_PROGRESS,
                                copyState := FETCH_RANGES_IN_PROGRESS\<rparr>;
                 hiddenColumns =
                   IrisGridUtils_getHiddenColumns ext (userColumnWidths copyOperation');
                 modelRanges0 =
                   GridUtils_getModelRanges ext (ranges copyOperation')
                     (movedColumns copyOperation');
                 modelRanges =
                   (if length hiddenColumns > 0
                    then GridRange_subtractRangesFromRanges ext modelRanges0
                           (map (GridRange_makeColumn ext) hiddenColumns)
                    else modelRanges0);
                 formatValue' =
                   (case formatValues copyOperation' of
                      Some True \<Rightarrow> DisplayString
                    | _ \<Rightarrow> TemplateString);
                 this2 = this1\<lparr>calls := calls this1 @
                   [TextSnapshot modelRanges (includeHeaders copyOperation') formatValue']\<rparr>
             in makeCancelable Snapshot this2))"

text \<open>
  In \<open>startFetch\<close>, the branch \<open>columnIndex = None\<close> under the guard
  \<open>isCopyHeaderOperation\<close> is never taken: the guard is that very test.
\<close>

definition startFetch_fulfilled ::
  "string \<Rightarrow> ('r, 'm, 'w) handler \<Rightarrow> ('r, 'm, 'w) handler" where
  "startFetch_fulfilled text' this = copyText FromFetch text' (this\<lparr>fetchPromise := None\<rparr>)"

definition startFetch_copied :: "('r, 'm, 'w) handler \<Rightarrow> ('r, 'm, 'w) handler" where
  "startFetch_copied this = showCopyDone this"

definition startFetch_copyFailed :: "('r, 'm, 'w) handler \<Rightarrow> ('r, 'm, 'w) handler" where
  "startFetch_copyFailed this =
     this\<lparr>buttonState := CLICK_TO_COPY, copyState := CLICK_REQUIRED\<rparr>"

definition startFetch_rejected ::
  "rejection \<Rightarrow> ('r, 'm, 'w) handler \<Rightarrow> ('r, 'm, 'w) handler" where
  "startFetch_rejected e this =
     (case e of
        CanceledPromiseError \<Rightarrow> this
      | OtherError \<Rightarrow>
          this\<lparr>fetchPromise := None, buttonState := RETRY, copyState := FETCH_ERROR\<rparr>)"

subsection \<open>Starting a copy, and the copy button\<close>

definition startCopy ::
  "('r, 'm, 'w) externals \<Rightarrow> ('r, 'm, 'w) handler \<Rightarrow> ('r, 'm, 'w) handler" where
  "startCopy ext this =
     (let this0 = stopCopy this in
      case copyOperation this0 of
        None \<Rightarrow> this0\<lparr>isShown := False\<rparr>
      | Some copyOperation' \<Rightarrow>
          (case opError copyOperation' of
             Some error' \<Rightarrow>
               startHideTimer
                 (this0\<lparr>isShown := True, copyState := DONE, error := Some error'\<rparr>)
           | None \<Rightarrow>
               let this1 = this0\<lparr>isShown := True, error := None\<rparr> in
               if isCopyRangesOperation copyOperation' then
                 (case ranges copyOperation' of
                    None \<Rightarrow> startFetch ext this1
                  | Some ranges' \<Rightarrow>
                      let rowCount' = GridRange_rowCount ext ranges';
                          this2 = this1\<lparr>rowCount := rowCount'\<rparr>
                      in if rowCount' > NO_PROMPT_THRESHOLD
                         then this2\<lparr>buttonState := COPY,
                                     copyState := CONFIRMATION_REQUIRED\<rparr>
                         else startFetch ext this2)
               else startFetch ext this1))"

text \<open>
  In \<open>startCopy\<close>, the branch \<open>ranges = None\<close> under the guard
  \<open>isCopyRangesOperation\<close> is never taken: the guard is that very test.
\<close>

text \<open>
  \<open>handleCopyClick\<close> up to its await, and what it does when the clipboard write it
  awaits settles.
\<close>

definition handleCopyClick ::
  "('r, 'm, 'w) externals \<Rightarrow> ('r, 'm, 'w) handler \<Rightarrow> ('r, 'm, 'w) handler" where
  "handleCopyClick ext this =
     (case textData this of
        Some text' \<Rightarrow> copyText FromClick text' this
      | None \<Rightarrow> startFetch ext this)"

definition handleCopyClick_copied :: "('r, 'm, 'w) handler \<Rightarrow> ('r, 'm, 'w) handler" where
  "handleCopyClick_copied this = showCopyDone this"

definition handleCopyClick_copyFailed ::
  "('r, 'm, 'w) handler \<Rightarrow> ('r, 'm, 'w) handler" where
  "handleCopyClick_copyFailed this =
     this\<lparr>error := Some ''Unable to copy. Verify your browser permissions.''\<rparr>"

subsection \<open>Lifecycle\<close>

definition componentDidMount ::
  "('r, 'm, 'w) externals \<Rightarrow> ('r, 'm, 'w) handler \<Rightarrow> ('r, 'm, 'w) handler" where
  "componentDidMount ext this =
     (case copyOperation this of None \<Rightarrow> this | Some _ \<Rightarrow> startCopy ext this)"

text \<open>
  \<open>componentDidUpdate\<close> compares the previous and the current prop by reference. The
  model takes the outcome of that comparison as an argument, with the new prop.
\<close>

definition componentDidUpdate ::
  "('r, 'm, 'w) externals \<Rightarrow> bool \<Rightarrow> ('r, 'm, 'w) CopyOperation option
     \<Rightarrow> ('r, 'm, 'w) handler \<Rightarrow> ('r, 'm, 'w) handler" where
  "componentDidUpdate ext changed props_copyOperation this =
     (let this0 = this\<lparr>copyOperation := props_copyOperation\<rparr>
      in if changed then startCopy ext this0 else this0)"

definition componentWillUnmount :: "('r, 'm, 'w) handler \<Rightarrow> ('r, 'm, 'w) handler" where
  "componentWillUnmount this = stopCopy this"

subsection \<open>What render shows\<close>

definition statusMessageText ::
  "('r, 'm, 'w) externals \<Rightarrow> ('r, 'm, 'w) handler \<Rightarrow> string" where
  "statusMessageText ext this =
     (case error this of
        Some error' \<Rightarrow> error'
      | None \<Rightarrow> getStatusMessageText ext (copyState this) (rowCount this))"

definition isButtonContainerVisible :: "('r, 'm, 'w) handler \<Rightarrow> bool" where
  "isButtonContainerVisible this = (copyState this \<noteq> DONE)"

definition isFetching :: "('r, 'm, 'w) handler \<Rightarrow> bool" where
  "isFetching this = (buttonState this = FETCH_IN_PROGRESS)"

subsection \<open>The handler among its events\<close>

text \<open>
  What can happen to a mounted handler: the parent supplies another operation (a
  reference-distinct prop, so \<open>componentDidUpdate\<close> starts a copy), the user clicks
  the background, the cancel button or the copy button, a scheduled timer fires, a
  pending fetch promise is fulfilled with a text or rejects, a pending clipboard
  write succeeds or fails, the component is unmounted. An event that names a handle
  which is not pending does nothing. A promise that wraps the header text can only be
  fulfilled, with that text. A canceled promise is not pending any more: its
  rejection runs \<open>startFetch_rejected CanceledPromiseError\<close>, which changes nothing.
\<close>

datatype ('r, 'm, 'w) event =
    PropsChanged "('r, 'm, 'w) CopyOperation option"
  | BackgroundClick
  | CancelClick
  | CopyClick
  | HideTimerFires nat
  | FetchFulfilled nat string
  | FetchRejected nat
  | WriteSucceeded nat
  | WriteFailed nat
  | Unmounted

definition settleFetch :: "nat \<Rightarrow> ('r, 'm, 'w) handler \<Rightarrow> ('r, 'm, 'w) handler" where
  "settleFetch p this =
     this\<lparr>pendingFetches := filter (\<lambda>x. fst x \<noteq> p) (pendingFetches this)\<rparr>"

definition settleWrite :: "nat \<Rightarrow> ('r, 'm, 'w) handler \<Rightarrow> ('r, 'm, 'w) handler" where
  "settleWrite w this =
     this\<lparr>pendingWrites := filter (\<lambda>x. fst x \<noteq> w) (pendingWrites this)\<rparr>"

definition expireTimer :: "nat \<Rightarrow> ('r, 'm, 'w) handler \<Rightarrow> ('r, 'm, 'w) handler" where
  "expireTimer t this =
     this\<lparr>pendingTimers := filter (\<lambda>x. fst x \<noteq> t) (pendingTimers this)\<rparr>"

definition step ::
  "('r, 'm, 'w) externals \<Rightarrow> ('r, 'm, 'w) handler \<Rightarrow> ('r, 'm, 'w) event
     \<Rightarrow> ('r, 'm, 'w) handler" where
  "step ext this ev =
     (case ev of
        PropsChanged props_copyOperation \<Rightarrow>
          componentDidUpdate ext True props_copyOperation this
      | BackgroundClick \<Rightarrow> handleBackgroundClick this
      | CancelClick \<Rightarrow> handleCancelClick this
      | CopyClick \<Rightarrow> handleCopyClick ext this
      | HideTimerFires t \<Rightarrow>
          (case map_of (pendingTimers this) t of
             None \<Rightarrow> this
           | Some _ \<Rightarrow> handleHideTimeout (expireTimer t this))
      | FetchFulfilled p text' \<Rightarrow>
          (case map_of (pendingFetches this) p of
             None \<Rightarrow> this
           | Some Snapshot \<Rightarrow> startFetch_fulfilled text' (settleFetch p this)
           | Some (HeaderText header) \<Rightarrow>
               if text' = header then startFetch_fulfilled text' (settleFetch p this)
               else this)
      | FetchRejected p \<Rightarrow>
          (case map_of (pendingFetches this) p of
             Some Snapshot \<Rightarrow> startFetch_rejected OtherError (settleFetch p this)
           | _ \<Rightarrow> this)
      | WriteSucceeded w \<Rightarrow>
          (case map_of (pendingWrites this) w of
             None \<Rightarrow> this
           | Some FromFetch \<Rightarrow> startFetch_copied (settleWrite w this)
           | Some FromClick \<Rightarrow> handleCopyClick_copied (settleWrite w this))
      | WriteFailed w \<Rightarrow>
          (case map_of (pendingWrites this) w of
             None \<Rightarrow> this
           | Some FromFetch \<Rightarrow> startFetch_copyFailed (settleWrite w this)
           | Some FromClick \<Rightarrow> handleCopyClick_copyFailed (settleWrite w this))
      | Unmounted \<Rightarrow> componentWillUnmount this)"

definition run ::
  "('r, 'm, 'w) externals \<Rightarrow> ('r, 'm, 'w) event list \<Rightarrow> ('r, 'm, 'w) handler
     \<Rightarrow> ('r, 'm, 'w) handler" where
  "run ext evs this = foldl (step ext) this evs"

text \<open>A handler constructed with a prop, mounted, and then taken through events.\<close>

definition mounted ::
  "('r, 'm, 'w) externals \<Rightarrow> ('r, 'm, 'w) CopyOperation option
     \<Rightarrow> ('r, 'm, 'w) event list \<Rightarrow> ('r, 'm, 'w) handler" where
  "mounted ext props_copyOperation evs =
     run ext evs (componentDidMount ext (constructor props_copyOperation))"

text \<open>
  The handler tracks what is outstanding: the pending fetch promises are exactly the
  one in \<open>fetchPromise\<close> (none when it is undefined), and the scheduled timers exactly
  the one in \<open>hideTimer\<close>.
\<close>

definition tracked :: "('r, 'm, 'w) handler \<Rightarrow> bool" where
  "tracked this =
     (map fst (pendingFetches this) =
        (case fetchPromise this of None \<Rightarrow> [] | Some p \<Rightarrow> [p]) \<and>
      map fst (pendingTimers this) =
        (case hideTimer this of None \<Rightarrow> [] | Some t \<Rightarrow> [t]))"

text \<open>Handles are fresh: the ones the handler holds are below the next one.\<close>

definition fresh :: "('r, 'm, 'w) handler \<Rightarrow> bool" where
  "fresh this =
     ((case fetchPromise this of None \<Rightarrow> True | Some p \<Rightarrow> p < nextId this) \<and>
      (case hideTimer this of None \<Rightarrow> True | Some t \<Rightarrow> t < nextId this))"

subsection \<open>A concrete host\<close>

text \<open>
  Concrete collaborators on which the theorems are instantiated: a range is an
  interval of rows, a move is a pair of columns, the width overrides are the list of
  the hidden columns; the model has one header, at column 0 and depth 0.
\<close>

definition host :: "(int \<times> int, int \<times> int, int list) externals" where
  "host =
     \<lparr>GridRange_rowCount = (\<lambda>rs. sum_list (map (\<lambda>(a, b). b - a + 1) rs)),
      GridRange_makeColumn = (\<lambda>c. (0, 0)),
      GridRange_subtractRangesFromRanges = (\<lambda>rs _. rs),
      GridUtils_getModelIndex = (\<lambda>i _. i),
      GridUtils_getModelRanges = (\<lambda>rs _. case rs of None \<Rightarrow> [] | Some rs' \<Rightarrow> rs'),
      IrisGridUtils_getHiddenColumns = (\<lambda>w. w),
      model_textForColumnHeader = (\<lambda>i d. if i = 0 \<and> d = 0 then Some ''Name'' else None),
      toLocaleString =
        (\<lambda>n. if n = 0 then ''0'' else if n = 5 then ''5''
             else if n = 20000 then ''20,000'' else ''?'')\<rparr>"

definition rangesOperation :: "int \<Rightarrow> (int \<times> int, int \<times> int, int list) CopyOperation" where
  "rangesOperation n =
     \<lparr>movedColumns = [], opError = None, ranges = Some [(0, n - 1)],
      includeHeaders = True, formatValues = None, userColumnWidths = [],
      columnIndex = None, columnDepth = 0\<rparr>"

definition headerOperation :: "int \<Rightarrow> (int \<times> int, int \<times> int, int list) CopyOperation" where
  "headerOperation i =
     \<lparr>movedColumns = [], opError = None, ranges = None,
      includeHeaders = False, formatValues = None, userColumnWidths = [],
      columnIndex = Some i, columnDepth = 0\<rparr>"

text \<open>
  An operation that has both discriminating fields: the ranges of
  \<open>rangesOperation n\<close> and the column index \<open>i\<close>.
\<close>

definition mixedOperation ::
  "int \<Rightarrow> int \<Rightarrow> (int \<times> int, int \<times> int, int list) CopyOperation" where
  "mixedOperation n i = (rangesOperation n)\<lparr>columnIndex := Some i\<rparr>"

text \<open>The handler mounted with five rows to copy: its fetch is in flight.\<close>

definition fetching :: "(int \<times> int, int \<times> int, int list) handler" where
  "fetching = mounted host (Some (rangesOperation 5)) []"

section \<open>Properties of KeyHandler\<close>

text \<open>
  Claim C9. A KeyHandler constructed without an order argument has order 5000, and the
  base class's \<open>onDown\<close> returns false (the event is not consumed) for every handler,
  keyboard event and grid.
\<close>

theorem KeyHandler_default_order_and_onDown:
  "order (KeyHandler_new None) = 5000 \<and> onDown this event grid = False"
  by (simp add: KeyHandler_new_def onDown_def)

section \<open>Properties of the copy handler\<close>

subsection \<open>Unfolding the handler\<close>

lemmas handler_defs =
  startCopy_def stopCopy_def stopFetch_def stopHideTimer_def startFetch_def
  isCopyRangesOperation_def isCopyHeaderOperation_def NO_PROMPT_THRESHOLD_def
  makeCancelable_def startHideTimer_def HIDE_TIMEOUT_def copyToClipboard_def copyText_def
  showCopyDone_def
  startFetch_fulfilled_def startFetch_copied_def startFetch_copyFailed_def
  startFetch_rejected_def handleCopyClick_def handleCopyClick_copied_def
  handleCopyClick_copyFailed_def handleCancelClick_def handleHideTimeout_def
  handleBackgroundClick_def statusMessageText_def getStatusMessageText_def

lemmas host_defs =
  host_def rangesOperation_def headerOperation_def mixedOperation_def
  constructor_def componentDidMount_def mounted_def run_def fetching_def

lemma fetching_state:
  "fetching =
     \<lparr>copyOperation = Some (rangesOperation 5), error = None,
      copyState = FETCH_RANGES_IN_PROGRESS, buttonState = FETCH_IN_PROGRESS,
      isShown = True, rowCount = 5, textData = None, hideTimer = None,
      fetchPromise = Some 0, pendingFetches = [(0, Snapshot)], pendingTimers = [],
      pendingWrites = [], calls = [TextSnapshot [(0, 4)] True TemplateString],
      unhandledRejections = 0, nextId = 1\<rparr>"
  by (simp add: host_defs handler_defs Let_def)

subsection \<open>Starting a copy\<close>

text \<open>
  Claim C1. For a Ranges operation without a preset error (\<open>ranges\<close> is there,
  \<open>error\<close> is not), \<open>startCopy\<close> ends in CONFIRMATION_REQUIRED having issued no fetch
  (no call to the model, no fetch promise, no handle taken) if and only if the row
  count of the ranges is greater than 10000. With a row count of at most 10000, and
  no \<open>columnIndex\<close> on the operation, it goes on to the fetch stage: the state is
  FETCH_RANGES_IN_PROGRESS, the button FETCH_IN_PROGRESS, and the snapshot has been
  requested and is pending.
\<close>

theorem startCopy_confirmation_threshold:
  assumes "copyOperation this = Some operation"
    and "opError operation = None"
    and "ranges operation = Some rs"
  shows "((copyState (startCopy ext this) = CONFIRMATION_REQUIRED
            \<and> calls (startCopy ext this) = calls this
            \<and> fetchPromise (startCopy ext this) = None
            \<and> nextId (startCopy ext this) = nextId this)
          = (GridRange_rowCount ext rs > 10000))
       \<and> (GridRange_rowCount ext rs \<le> 10000 \<and> columnIndex operation = None \<longrightarrow>
            copyState (startCopy ext this) = FETCH_RANGES_IN_PROGRESS
            \<and> buttonState (startCopy ext this) = FETCH_IN_PROGRESS
            \<and> rowCount (startCopy ext this) = GridRange_rowCount ext rs
            \<and> fetchPromise (startCopy ext this) = Some (nextId this)
            \<and> (nextId this, Snapshot) \<in> set (pendingFetches (startCopy ext this))
            \<and> (\<exists>modelRanges formatValue'. calls (startCopy ext this) =
                  calls this @
                    [TextSnapshot modelRanges (includeHeaders operation) formatValue']))"
  using assms
  by (auto simp: handler_defs Let_def split: option.splits)

theorem startCopy_confirmation_threshold_witness:
  "copyState (startCopy host (constructor (Some (rangesOperation 5))))
     = FETCH_RANGES_IN_PROGRESS
   \<and> fetchPromise (startCopy host (constructor (Some (rangesOperation 5)))) = Some 0
   \<and> copyState (startCopy host (constructor (Some (rangesOperation 20000))))
     = CONFIRMATION_REQUIRED
   \<and> calls (startCopy host (constructor (Some (rangesOperation 20000)))) = []
   \<and> copyState (startCopy host (constructor (Some (rangesOperation 10000))))
     = FETCH_RANGES_IN_PROGRESS"
  using
    startCopy_confirmation_threshold [where this = "constructor (Some (rangesOperation 5))"
      and operation = "rangesOperation 5" and rs = "[(0, 4)]" and ext = host]
    startCopy_confirmation_threshold [where this = "constructor (Some (rangesOperation 20000))"
      and operation = "rangesOperation 20000" and rs = "[(0, 19999)]" and ext = host]
    startCopy_confirmation_threshold [where this = "constructor (Some (rangesOperation 10000))"
      and operation = "rangesOperation 10000" and rs = "[(0, 9999)]" and ext = host]
  by (simp add: constructor_def rangesOperation_def host_def)

text \<open>
  Claim C7. For an operation that carries a preset error, \<open>startCopy\<close> ends in DONE
  with that error as the state's error, which is the text render shows; the bar is
  shown, the hide timer is scheduled with 3000 ms, no call to the model or to the
  clipboard has been made and no fetch promise is held.
\<close>

theorem preset_error_goes_to_DONE:
  assumes "copyOperation this = Some operation"
    and "opError operation = Some error'"
  shows "copyState (startCopy ext this) = DONE
       \<and> error (startCopy ext this) = Some error'
       \<and> statusMessageText ext (startCopy ext this) = error'
       \<and> isShown (startCopy ext this)
       \<and> hideTimer (startCopy ext this) = Some (nextId this)
       \<and> (nextId this, 3000) \<in> set (pendingTimers (startCopy ext this))
       \<and> calls (startCopy ext this) = calls this
       \<and> fetchPromise (startCopy ext this) = None
       \<and> pendingWrites (startCopy ext this) = pendingWrites this"
  using assms
  by (auto simp: handler_defs Let_def split: option.splits)

theorem preset_error_goes_to_DONE_witness:
  "copyState (startCopy host
      (constructor (Some ((rangesOperation 5)\<lparr>opError := Some ''Nothing to copy''\<rparr>)))) = DONE
   \<and> statusMessageText host (startCopy host
      (constructor (Some ((rangesOperation 5)\<lparr>opError := Some ''Nothing to copy''\<rparr>))))
     = ''Nothing to copy''
   \<and> hideTimer (startCopy host
      (constructor (Some ((rangesOperation 5)\<lparr>opError := Some ''Nothing to copy''\<rparr>))))
     = Some 0
   \<and> calls (startCopy host
      (constructor (Some ((rangesOperation 5)\<lparr>opError := Some ''Nothing to copy''\<rparr>)))) = []"
  using
    preset_error_goes_to_DONE [where ext = host and error' = "''Nothing to copy''"
      and operation = "(rangesOperation 5)\<lparr>opError := Some ''Nothing to copy''\<rparr>"
      and this = "constructor (Some ((rangesOperation 5)\<lparr>opError := Some ''Nothing to copy''\<rparr>))"]
  by (simp add: constructor_def rangesOperation_def)

text \<open>
  Claim C10. The two discriminators test different fields: \<open>isCopyRangesOperation\<close>
  holds iff \<open>ranges\<close> is not null, \<open>isCopyHeaderOperation\<close> iff \<open>columnIndex\<close> is not
  null. For an operation with both (and no preset error), \<open>startCopy\<close> takes the
  Ranges path: it stores the row count of the ranges and asks for confirmation above
  10000 rows; \<open>startFetch\<close> takes the Header path: its one call to the model is the
  header request, its state is FETCH_HEADER_IN_PROGRESS (DONE when the model has no
  such header), and it does what it would do were \<open>ranges\<close> absent.
\<close>

theorem discriminators_test_different_fields:
  "isCopyRangesOperation operation = (ranges operation \<noteq> None)
   \<and> isCopyHeaderOperation operation = (columnIndex operation \<noteq> None)
   \<and> (copyOperation this = Some operation \<and> opError operation = None
        \<and> ranges operation = Some rs \<and> columnIndex operation = Some columnIndex' \<longrightarrow>
        rowCount (startCopy ext this) = GridRange_rowCount ext rs
        \<and> (copyState (startCopy ext this) = CONFIRMATION_REQUIRED)
            = (GridRange_rowCount ext rs > 10000)
        \<and> calls (startFetch ext this) = calls this @
             [TextForColumnHeader
                (GridUtils_getModelIndex ext columnIndex' (movedColumns operation))
                (columnDepth operation)]
        \<and> copyState (startFetch ext this) =
            (case model_textForColumnHeader ext
                    (GridUtils_getModelIndex ext columnIndex' (movedColumns operation))
                    (columnDepth operation) of
               None \<Rightarrow> DONE | Some _ \<Rightarrow> FETCH_HEADER_IN_PROGRESS)
        \<and> startFetch ext this =
            (startFetch ext (this\<lparr>copyOperation := Some (operation\<lparr>ranges := None\<rparr>)\<rparr>))
              \<lparr>copyOperation := Some operation\<rparr>)"
  by (auto simp add: handler_defs Let_def split: option.splits)

theorem discriminators_test_different_fields_witness:
  "copyState (startCopy host (constructor (Some (mixedOperation 20000 0))))
     = CONFIRMATION_REQUIRED
   \<and> rowCount (startCopy host (constructor (Some (mixedOperation 20000 0)))) = 20000
   \<and> copyState (startFetch host (constructor (Some (mixedOperation 20000 0))))
     = FETCH_HEADER_IN_PROGRESS
   \<and> calls (startFetch host (constructor (Some (mixedOperation 20000 0))))
     = [TextForColumnHeader 0 0]"
  using
    discriminators_test_different_fields [where ext = host
      and operation = "mixedOperation 20000 0" and rs = "[(0, 19999)]" and columnIndex' = 0
      and this = "constructor (Some (mixedOperation 20000 0))"]
  by (simp add: host_defs handler_defs Let_def)


subsection \<open>The fetch stage\<close>

text \<open>
  Claim C6. For a Header operation (\<open>columnIndex\<close> is there) for which the model has
  no text at the requested header position, \<open>startFetch\<close> sets the error
  "Invalid column header selected." and the state DONE. Its only call is the header
  request: no clipboard write is made or pending, no text is cached, and no fetch
  promise is created whose fulfilment would lead to a write.
\<close>

theorem invalid_header_fails_without_clipboard:
  assumes "copyOperation this = Some operation"
    and "columnIndex operation = Some columnIndex'"
    and "model_textForColumnHeader ext
           (GridUtils_getModelIndex ext columnIndex' (movedColumns operation))
           (columnDepth operation) = None"
  shows "error (startFetch ext this) = Some ''Invalid column header selected.''
       \<and> copyState (startFetch ext this) = DONE
       \<and> statusMessageText ext (startFetch ext this) = ''Invalid column header selected.''
       \<and> calls (startFetch ext this) = calls this @
            [TextForColumnHeader
               (GridUtils_getModelIndex ext columnIndex' (movedColumns operation))
               (columnDepth operation)]
       \<and> pendingWrites (startFetch ext this) = pendingWrites this
       \<and> textData (startFetch ext this) = textData this
       \<and> fetchPromise (startFetch ext this) = None
       \<and> nextId (startFetch ext this) = nextId this"
  using assms
  by (auto simp: handler_defs Let_def split: option.splits)

theorem invalid_header_fails_without_clipboard_witness:
  "error (startFetch host (constructor (Some (headerOperation 1))))
     = Some ''Invalid column header selected.''
   \<and> copyState (startFetch host (constructor (Some (headerOperation 1)))) = DONE
   \<and> calls (startFetch host (constructor (Some (headerOperation 1))))
     = [TextForColumnHeader 1 0]
   \<and> pendingWrites (startFetch host (constructor (Some (headerOperation 1)))) = []"
  using
    invalid_header_fails_without_clipboard [where ext = host and columnIndex' = 1
      and operation = "headerOperation 1"
      and this = "constructor (Some (headerOperation 1))"]
  by (simp add: constructor_def headerOperation_def host_def)




text \<open>
  Claim C5. When the awaited fetch promise rejects, \<open>startFetch\<close> sets the state
  FETCH_ERROR and the button RETRY, with the status message "Unable to copy data.",
  when the rejection is not a cancellation; on a cancellation it changes nothing. So
  from a state other than FETCH_ERROR the rejection leads to FETCH_ERROR if and only
  if it is not a cancellation. Canceling the fetch (\<open>stopFetch\<close>, and the cancel
  button) and the rejection that follows leave the state, the button and the error as
  they were.
\<close>

theorem fetch_rejection_outcomes:
  "(let after = startFetch_rejected e this;
        canceled = startFetch_rejected CanceledPromiseError (handleCancelClick this)
    in (e \<noteq> CanceledPromiseError \<longrightarrow>
          copyState after = FETCH_ERROR \<and> buttonState after = RETRY
          \<and> getStatusMessageText ext (copyState after) (rowCount after)
              = ''Unable to copy data.''
          \<and> error after = error this
          \<and> (error this = None \<longrightarrow>
                statusMessageText ext after = ''Unable to copy data.''))
       \<and> (e = CanceledPromiseError \<longrightarrow> after = this)
       \<and> (copyState this \<noteq> FETCH_ERROR \<longrightarrow>
            (copyState after = FETCH_ERROR) = (e \<noteq> CanceledPromiseError))
       \<and> copyState (stopFetch this) = copyState this
       \<and> error (stopFetch this) = error this
       \<and> copyState canceled = copyState this
       \<and> buttonState canceled = buttonState this
       \<and> error canceled = error this
       \<and> fetchPromise canceled = None)"
  by (cases e) (simp_all add: handler_defs Let_def split: option.splits)

theorem fetch_rejection_outcomes_witness:
  "copyState (startFetch_rejected OtherError fetching) = FETCH_ERROR
   \<and> buttonState (startFetch_rejected OtherError fetching) = RETRY
   \<and> statusMessageText host (startFetch_rejected OtherError fetching)
     = ''Unable to copy data.''
   \<and> startFetch_rejected CanceledPromiseError fetching = fetching
   \<and> copyState (startFetch_rejected CanceledPromiseError (handleCancelClick fetching))
     = FETCH_RANGES_IN_PROGRESS
   \<and> error (startFetch_rejected CanceledPromiseError (handleCancelClick fetching)) = None"
  using
    fetch_rejection_outcomes [where ext = host and e = OtherError and this = fetching]
    fetch_rejection_outcomes [where ext = host and e = CanceledPromiseError
      and this = fetching]
  by (simp add: Let_def fetching_state host_def handler_defs)

subsection \<open>The copy button\<close>

text \<open>
  Claim C3. With a text cached, a click on the copy button writes it to the
  clipboard, with no other call and no change of state. When that write fails, the
  error becomes "Unable to copy. Verify your browser permissions." and the state,
  the button, the cached text and the timer stay as they were; when it succeeds, the
  state becomes DONE and the hide timer is scheduled with 3000 ms.
\<close>

theorem manual_copy_click_outcomes:
  assumes "textData this = Some text'"
  shows "(let clicked = handleCopyClick ext this;
              failed = handleCopyClick_copyFailed clicked;
              copied = handleCopyClick_copied clicked
          in calls clicked = calls this @ [CopyToClipboard text']
             \<and> pendingFetches clicked = pendingFetches this
             \<and> copyState clicked = copyState this
             \<and> error failed = Some ''Unable to copy. Verify your browser permissions.''
             \<and> statusMessageText ext failed
                 = ''Unable to copy. Verify your browser permissions.''
             \<and> copyState failed = copyState this
             \<and> buttonState failed = buttonState this
             \<and> textData failed = Some text'
             \<and> hideTimer failed = hideTimer this
             \<and> pendingTimers failed = pendingTimers this
             \<and> copyState copied = DONE
             \<and> hideTimer copied = Some (nextId clicked)
             \<and> (nextId clicked, 3000) \<in> set (pendingTimers copied))"
  using assms
  by (simp add: handler_defs Let_def split: option.splits)

theorem manual_copy_click_outcomes_witness:
  "error (handleCopyClick_copyFailed (handleCopyClick host
      (startFetch_copyFailed (startFetch_fulfilled ''a'' fetching))))
     = Some ''Unable to copy. Verify your browser permissions.''
   \<and> copyState (handleCopyClick_copyFailed (handleCopyClick host
      (startFetch_copyFailed (startFetch_fulfilled ''a'' fetching)))) = CLICK_REQUIRED
   \<and> buttonState (handleCopyClick_copyFailed (handleCopyClick host
      (startFetch_copyFailed (startFetch_fulfilled ''a'' fetching)))) = CLICK_TO_COPY
   \<and> copyState (handleCopyClick_copied (handleCopyClick host
      (startFetch_copyFailed (startFetch_fulfilled ''a'' fetching)))) = DONE
   \<and> hideTimer (handleCopyClick_copied (handleCopyClick host
      (startFetch_copyFailed (startFetch_fulfilled ''a'' fetching)))) = Some 3"
  using
    manual_copy_click_outcomes [where ext = host and text' = "''a''"
      and this = "startFetch_copyFailed (startFetch_fulfilled ''a'' fetching)"]
  by (simp add: Let_def fetching_state handler_defs)

subsection \<open>Entering DONE on an invalid header\<close>

text \<open>
  On the invalid header \<open>startFetch\<close> enters DONE and leaves the timer as it finds
  it; \<open>showCopyDone\<close>, the other way into DONE of the fetch stage, schedules it.
\<close>

lemma invalid_header_leaves_timer:
  assumes "copyOperation this = Some operation"
    and "columnIndex operation = Some columnIndex'"
    and "model_textForColumnHeader ext
           (GridUtils_getModelIndex ext columnIndex' (movedColumns operation))
           (columnDepth operation) = None"
  shows "copyState (startFetch ext this) = DONE
       \<and> hideTimer (startFetch ext this) = hideTimer this
       \<and> pendingTimers (startFetch ext this) = pendingTimers this"
  using assms
  by (auto simp: handler_defs Let_def split: option.splits)

lemma showCopyDone_schedules_timer:
  "copyState (showCopyDone this) = DONE
   \<and> hideTimer (showCopyDone this) = Some (nextId this)
   \<and> (nextId this, 3000) \<in> set (pendingTimers (showCopyDone this))"
  by (auto simp: handler_defs Let_def split: option.splits)

lemma handleHideTimeout_hides:
  "\<not> isShown (handleHideTimeout this) \<and> hideTimer (handleHideTimeout this) = None"
  by (auto simp: handler_defs split: option.splits)

text \<open>
  Claim C4, at a Header operation whose header the model does not have (column 1 of
  the host). Mounted with it, the handler is in DONE, shown, with the error, and no
  timer is scheduled or held: nothing will hide the bar, and a timer event finds
  nothing to fire. Mounted with the same error preset on the operation, the handler is
  in DONE with the timer of 3000 ms scheduled.
\<close>

theorem header_invalid_enters_DONE_without_timer:
  "(let this = mounted host (Some (headerOperation 1)) [];
        sibling = mounted host
          (Some ((headerOperation 1)\<lparr>opError := Some ''Invalid column header selected.''\<rparr>)) []
    in copyState this = DONE
       \<and> error this = Some ''Invalid column header selected.''
       \<and> isShown this
       \<and> hideTimer this = None
       \<and> pendingTimers this = []
       \<and> isShown (step host this (HideTimerFires 0))
       \<and> copyState sibling = DONE
       \<and> error sibling = Some ''Invalid column header selected.''
       \<and> hideTimer sibling = Some 0
       \<and> pendingTimers sibling = [(0, 3000)]
       \<and> \<not> isShown (step host sibling (HideTimerFires 0)))"
  by (simp add: host_defs handler_defs step_def expireTimer_def Let_def)


subsection \<open>What is outstanding\<close>

lemma single_removed: "map fst xs = [p] \<Longrightarrow> filter (\<lambda>x. fst x \<noteq> p) xs = []"
  by (cases xs) auto

lemma pending_lookup:
  "map fst xs = (case h of None \<Rightarrow> [] | Some p \<Rightarrow> [p]) \<Longrightarrow> map_of xs q = Some v
     \<Longrightarrow> h = Some q \<and> filter (\<lambda>x. fst x \<noteq> q) xs = []"
  by (cases xs; cases h) (auto split: if_splits)

lemma stopFetch_fields [simp]:
  "hideTimer (stopFetch this) = hideTimer this"
  "pendingTimers (stopFetch this) = pendingTimers this"
  "copyOperation (stopFetch this) = copyOperation this"
  "textData (stopFetch this) = textData this"
  "nextId (stopFetch this) = nextId this"
  by (simp_all add: stopFetch_def split: option.splits)

lemma stopHideTimer_fields [simp]:
  "fetchPromise (stopHideTimer this) = fetchPromise this"
  "pendingFetches (stopHideTimer this) = pendingFetches this"
  "copyOperation (stopHideTimer this) = copyOperation this"
  "textData (stopHideTimer this) = textData this"
  "nextId (stopHideTimer this) = nextId this"
  by (simp_all add: stopHideTimer_def split: option.splits)

lemma stopFetch_idem: "stopFetch (stopFetch this) = stopFetch this"
  by (simp add: stopFetch_def split: option.splits)

lemma stopHideTimer_idem: "stopHideTimer (stopHideTimer this) = stopHideTimer this"
  by (simp add: stopHideTimer_def split: option.splits)

lemma stopCopy_idem: "stopCopy (stopCopy this) = stopCopy this"
  by (simp add: stopCopy_def stopFetch_def stopHideTimer_def split: option.splits)

paragraph \<open>Tracking is kept by every operation.\<close>

lemma tracked_update [simp]:
  "tracked (this\<lparr>isShown := a\<rparr>) = tracked this"
  "tracked (this\<lparr>copyState := b\<rparr>) = tracked this"
  "tracked (this\<lparr>buttonState := c\<rparr>) = tracked this"
  "tracked (this\<lparr>error := d\<rparr>) = tracked this"
  "tracked (this\<lparr>rowCount := e\<rparr>) = tracked this"
  "tracked (this\<lparr>textData := f\<rparr>) = tracked this"
  "tracked (this\<lparr>calls := g\<rparr>) = tracked this"
  "tracked (this\<lparr>unhandledRejections := h\<rparr>) = tracked this"
  "tracked (this\<lparr>copyOperation := i\<rparr>) = tracked this"
  "tracked (this\<lparr>pendingWrites := j\<rparr>) = tracked this"
  "tracked (this\<lparr>nextId := k\<rparr>) = tracked this"
  by (simp_all add: tracked_def)

lemma tracked_stopFetch:
  "tracked this \<Longrightarrow> tracked (stopFetch this) \<and> pendingFetches (stopFetch this) = []
     \<and> fetchPromise (stopFetch this) = None"
  by (auto simp: tracked_def stopFetch_def single_removed split: option.splits)

lemma tracked_stopHideTimer:
  "tracked this \<Longrightarrow> tracked (stopHideTimer this) \<and> pendingTimers (stopHideTimer this) = []
     \<and> hideTimer (stopHideTimer this) = None"
  by (auto simp: tracked_def stopHideTimer_def single_removed split: option.splits)

lemma tracked_startHideTimer: "tracked this \<Longrightarrow> tracked (startHideTimer this)"
  using tracked_stopHideTimer [of this]
  by (simp add: tracked_def startHideTimer_def Let_def)

lemma tracked_stopCopy:
  "tracked this \<Longrightarrow> tracked (stopCopy this) \<and> textData (stopCopy this) = None
     \<and> pendingFetches (stopCopy this) = [] \<and> fetchPromise (stopCopy this) = None
     \<and> pendingTimers (stopCopy this) = [] \<and> hideTimer (stopCopy this) = None"
proof -
  assume t: "tracked this"
  have t0: "tracked (this\<lparr>textData := None\<rparr>)" using t by simp
  from tracked_stopFetch [OF t0]
    tracked_stopHideTimer [of "stopFetch (this\<lparr>textData := None\<rparr>)"]
  show ?thesis by (simp add: stopCopy_def)
qed

lemma tracked_startFetch: "tracked this \<Longrightarrow> tracked (startFetch ext this)"
proof -
  assume t: "tracked this"
  from tracked_stopFetch [OF t]
  have "pendingFetches (stopFetch this) = []" "fetchPromise (stopFetch this) = None"
    "map fst (pendingTimers (stopFetch this)) =
       (case hideTimer (stopFetch this) of None \<Rightarrow> [] | Some t \<Rightarrow> [t])"
    by (simp_all add: tracked_def)
  then show ?thesis
    by (auto simp: startFetch_def Let_def tracked_def makeCancelable_def split: option.splits)
qed

lemma startFetch_pending_new:
  "tracked this \<Longrightarrow>
     list_all (\<lambda>x. nextId this \<le> fst x) (pendingFetches (startFetch ext this))"
proof -
  assume t: "tracked this"
  from tracked_stopFetch [OF t]
  have "pendingFetches (stopFetch this) = []" by simp
  then show ?thesis
    by (auto simp: startFetch_def Let_def makeCancelable_def split: option.splits)
qed

lemma tracked_startCopy: "tracked this \<Longrightarrow> tracked (startCopy ext this)"
proof -
  assume t: "tracked this"
  note s = tracked_stopCopy [OF t]
  then show ?thesis
    by (auto simp: startCopy_def Let_def intro!: tracked_startFetch tracked_startHideTimer
        split: option.splits)
qed

lemma tracked_copyText: "tracked this \<Longrightarrow> tracked (copyText origin text' this)"
  by (simp add: copyText_def copyToClipboard_def tracked_def)

lemma tracked_showCopyDone: "tracked this \<Longrightarrow> tracked (showCopyDone this)"
  by (simp add: showCopyDone_def tracked_startHideTimer)

lemma tracked_handleCopyClick: "tracked this \<Longrightarrow> tracked (handleCopyClick ext this)"
  by (simp add: handleCopyClick_def tracked_copyText tracked_startFetch split: option.splits)

lemma tracked_fetch_settled:
  "tracked this \<Longrightarrow> map_of (pendingFetches this) p = Some v
     \<Longrightarrow> tracked ((settleFetch p this)\<lparr>fetchPromise := None\<rparr>)"
  using pending_lookup [of "pendingFetches this" "fetchPromise this" p v]
  by (simp add: tracked_def settleFetch_def)

lemma tracked_timer_expired:
  "tracked this \<Longrightarrow> map_of (pendingTimers this) t = Some v
     \<Longrightarrow> tracked (handleHideTimeout (expireTimer t this))"
  using pending_lookup [of "pendingTimers this" "hideTimer this" t v]
  by (simp add: tracked_def expireTimer_def handleHideTimeout_def stopHideTimer_def)

lemma tracked_settleWrite: "tracked (settleWrite w this) = tracked this"
  by (simp add: settleWrite_def)

lemma tracked_step: "tracked this \<Longrightarrow> tracked (step ext this ev)"
proof (cases ev)
  case (PropsChanged x1)
  assume "tracked this"
  then show ?thesis using PropsChanged
    by (simp add: step_def componentDidUpdate_def tracked_startCopy)
next
  case BackgroundClick
  assume "tracked this"
  then show ?thesis using BackgroundClick by (simp add: step_def handleBackgroundClick_def)
next
  case CancelClick
  assume "tracked this"
  then show ?thesis using CancelClick tracked_stopFetch [of this]
    by (simp add: step_def handleCancelClick_def)
next
  case CopyClick
  assume "tracked this"
  then show ?thesis using CopyClick by (simp add: step_def tracked_handleCopyClick)
next
  case (HideTimerFires t)
  assume "tracked this"
  then show ?thesis using HideTimerFires
    by (auto simp: step_def tracked_timer_expired split: option.splits)
next
  case (FetchFulfilled p text')
  assume "tracked this"
  then show ?thesis using FetchFulfilled
    by (auto simp: step_def startFetch_fulfilled_def tracked_fetch_settled
        intro!: tracked_copyText split: option.splits fetch_source.splits)
next
  case (FetchRejected p)
  assume t: "tracked this"
  have "tracked (startFetch_rejected OtherError (settleFetch p this))"
    if "map_of (pendingFetches this) p = Some v" for v
    using tracked_fetch_settled [OF t that] by (simp add: startFetch_rejected_def)
  then show ?thesis using FetchRejected t
    by (auto simp: step_def split: option.splits fetch_source.splits)
next
  case (WriteSucceeded w)
  assume "tracked this"
  then show ?thesis using WriteSucceeded
    by (auto simp: step_def startFetch_copied_def handleCopyClick_copied_def
        tracked_settleWrite tracked_showCopyDone split: option.splits write_origin.splits)
next
  case (WriteFailed w)
  assume "tracked this"
  then show ?thesis using WriteFailed
    by (auto simp: step_def startFetch_copyFailed_def handleCopyClick_copyFailed_def
        tracked_settleWrite split: option.splits write_origin.splits)
next
  case Unmounted
  assume "tracked this"
  then show ?thesis using Unmounted tracked_stopCopy [of this]
    by (simp add: step_def componentWillUnmount_def)
qed

lemma tracked_run: "tracked this \<Longrightarrow> tracked (run ext evs this)"
  unfolding run_def by (induction evs arbitrary: this) (simp_all add: tracked_step)

lemma tracked_constructor: "tracked (constructor props_copyOperation)"
  by (simp add: tracked_def constructor_def)

lemma tracked_mounted: "tracked (mounted ext props_copyOperation evs)"
  unfolding mounted_def
  by (rule tracked_run)
    (simp add: componentDidMount_def tracked_constructor tracked_startCopy split: option.splits)

lemma tracked_at_most_one:
  "tracked this \<Longrightarrow> length (pendingFetches this) \<le> 1 \<and> length (pendingTimers this) \<le> 1"
proof -
  assume t: "tracked this"
  have "length (map fst (pendingFetches this)) \<le> 1"
    "length (map fst (pendingTimers this)) \<le> 1"
    using t by (auto simp: tracked_def split: option.splits)
  then show ?thesis by simp
qed

paragraph \<open>Handles stay fresh.\<close>

lemma fresh_update [simp]:
  "fresh (this\<lparr>isShown := a\<rparr>) = fresh this"
  "fresh (this\<lparr>copyState := b\<rparr>) = fresh this"
  "fresh (this\<lparr>buttonState := c\<rparr>) = fresh this"
  "fresh (this\<lparr>error := d\<rparr>) = fresh this"
  "fresh (this\<lparr>rowCount := e\<rparr>) = fresh this"
  "fresh (this\<lparr>textData := f\<rparr>) = fresh this"
  "fresh (this\<lparr>calls := g\<rparr>) = fresh this"
  "fresh (this\<lparr>unhandledRejections := h\<rparr>) = fresh this"
  "fresh (this\<lparr>copyOperation := i\<rparr>) = fresh this"
  "fresh (this\<lparr>pendingWrites := j\<rparr>) = fresh this"
  "fresh (this\<lparr>pendingFetches := k\<rparr>) = fresh this"
  "fresh (this\<lparr>pendingTimers := l\<rparr>) = fresh this"
  by (simp_all add: fresh_def split: option.splits)

lemma fresh_forget [simp]: "fresh this \<Longrightarrow> fresh (this\<lparr>fetchPromise := None\<rparr>)"
  by (simp add: fresh_def split: option.splits)

lemma fresh_startFetch: "fresh this \<Longrightarrow> fresh (startFetch ext this)"
  by (auto simp: fresh_def startFetch_def stopFetch_def makeCancelable_def Let_def
      split: option.splits)

lemma fresh_startHideTimer: "fresh this \<Longrightarrow> fresh (startHideTimer this)"
  by (auto simp: fresh_def startHideTimer_def stopHideTimer_def Let_def split: option.splits)

lemma fresh_stopCopy: "fresh this \<Longrightarrow> fresh (stopCopy this)"
  by (auto simp: fresh_def stopCopy_def stopFetch_def stopHideTimer_def split: option.splits)

lemma fresh_startCopy: "fresh this \<Longrightarrow> fresh (startCopy ext this)"
  using fresh_stopCopy [of this]
  by (auto simp: startCopy_def Let_def intro!: fresh_startFetch fresh_startHideTimer
      split: option.splits)

lemma fresh_copyText: "fresh this \<Longrightarrow> fresh (copyText origin text' this)"
  by (auto simp: fresh_def copyText_def copyToClipboard_def split: option.splits)

lemma fresh_showCopyDone: "fresh this \<Longrightarrow> fresh (showCopyDone this)"
  by (simp add: showCopyDone_def fresh_startHideTimer)

lemma fresh_step: "fresh this \<Longrightarrow> fresh (step ext this ev)"
proof (cases ev)
  case (PropsChanged x1)
  assume "fresh this"
  then show ?thesis using PropsChanged
    by (simp add: step_def componentDidUpdate_def fresh_startCopy)
next
  case BackgroundClick
  assume "fresh this"
  then show ?thesis using BackgroundClick by (simp add: step_def handleBackgroundClick_def)
next
  case CancelClick
  assume "fresh this"
  then show ?thesis using CancelClick
    by (auto simp: step_def handleCancelClick_def fresh_def stopFetch_def split: option.splits)
next
  case CopyClick
  assume "fresh this"
  then show ?thesis using CopyClick
    by (simp add: step_def handleCopyClick_def fresh_copyText fresh_startFetch
        split: option.splits)
next
  case (HideTimerFires t)
  assume "fresh this"
  then show ?thesis using HideTimerFires
    by (auto simp: step_def handleHideTimeout_def expireTimer_def stopHideTimer_def fresh_def
        split: option.splits)
next
  case (FetchFulfilled p text')
  assume "fresh this"
  then show ?thesis using FetchFulfilled
    by (auto simp: step_def startFetch_fulfilled_def settleFetch_def
        intro!: fresh_copyText split: option.splits fetch_source.splits)
next
  case (FetchRejected p)
  assume "fresh this"
  then show ?thesis using FetchRejected
    by (auto simp: step_def startFetch_rejected_def settleFetch_def
        split: option.splits fetch_source.splits)
next
  case (WriteSucceeded w)
  assume "fresh this"
  then show ?thesis using WriteSucceeded
    by (auto simp: step_def startFetch_copied_def handleCopyClick_copied_def
        settleWrite_def intro!: fresh_showCopyDone split: option.splits write_origin.splits)
next
  case (WriteFailed w)
  assume "fresh this"
  then show ?thesis using WriteFailed
    by (auto simp: step_def startFetch_copyFailed_def handleCopyClick_copyFailed_def
        settleWrite_def split: option.splits write_origin.splits)
next
  case Unmounted
  assume "fresh this"
  then show ?thesis using Unmounted
    by (simp add: step_def componentWillUnmount_def fresh_stopCopy)
qed

lemma fresh_run: "fresh this \<Longrightarrow> fresh (run ext evs this)"
  unfolding run_def by (induction evs arbitrary: this) (simp_all add: fresh_step)

lemma fresh_constructor: "fresh (constructor props_copyOperation)"
  by (simp add: fresh_def constructor_def)

lemma fresh_mounted: "fresh (mounted ext props_copyOperation evs)"
  unfolding mounted_def
  by (rule fresh_run)
    (simp add: componentDidMount_def fresh_startCopy fresh_constructor split: option.splits)

text \<open>
  Claim C8. In every state a mounted handler reaches, whatever the events, at most
  one fetch promise is pending and at most one timer is scheduled: they are the ones
  the handler holds in \<open>fetchPromise\<close> and \<open>hideTimer\<close>, under handles older than the
  next one. From such a state \<open>stopFetch\<close> leaves no fetch pending and \<open>startFetch\<close>
  does what it does after \<open>stopFetch\<close>: every fetch pending after it is new, and there
  is at most one. Likewise \<open>stopHideTimer\<close> leaves no timer scheduled and
  \<open>startHideTimer\<close> leaves the new timer of 3000 ms only. \<open>stopCopy\<close> leaves no fetch,
  no timer and no cached text, and \<open>startCopy\<close> does what it does after \<open>stopCopy\<close>.
\<close>

theorem at_most_one_fetch_and_timer:
  "(let this = mounted ext props_copyOperation evs
    in length (pendingFetches this) \<le> 1
       \<and> length (pendingTimers this) \<le> 1
       \<and> tracked this
       \<and> fresh this
       \<and> pendingFetches (stopFetch this) = []
       \<and> startFetch ext this = startFetch ext (stopFetch this)
       \<and> list_all (\<lambda>x. nextId this \<le> fst x) (pendingFetches (startFetch ext this))
       \<and> length (pendingFetches (startFetch ext this)) \<le> 1
       \<and> pendingTimers (stopHideTimer this) = []
       \<and> startHideTimer this = startHideTimer (stopHideTimer this)
       \<and> pendingTimers (startHideTimer this) = [(nextId this, 3000)]
       \<and> textData (stopCopy this) = None
       \<and> fetchPromise (stopCopy this) = None
       \<and> hideTimer (stopCopy this) = None
       \<and> pendingFetches (stopCopy this) = []
       \<and> pendingTimers (stopCopy this) = []
       \<and> startCopy ext this = startCopy ext (stopCopy this))"
proof -
  define this where "this = mounted ext props_copyOperation evs"
  have t: "tracked this" unfolding this_def by (rule tracked_mounted)
  have f: "fresh this" unfolding this_def by (rule fresh_mounted)
  have 1: "length (pendingFetches this) \<le> 1 \<and> length (pendingTimers this) \<le> 1"
    using t by (rule tracked_at_most_one)
  have 2: "pendingFetches (stopFetch this) = []" using tracked_stopFetch [OF t] by simp
  have 3: "startFetch ext this = startFetch ext (stopFetch this)"
    by (simp add: startFetch_def stopFetch_idem)
  have 4: "list_all (\<lambda>x. nextId this \<le> fst x) (pendingFetches (startFetch ext this))"
    using t by (rule startFetch_pending_new)
  have 5: "length (pendingFetches (startFetch ext this)) \<le> 1"
    using tracked_at_most_one [OF tracked_startFetch [OF t]] by simp
  have 6: "pendingTimers (stopHideTimer this) = []" using tracked_stopHideTimer [OF t] by simp
  have 7: "startHideTimer this = startHideTimer (stopHideTimer this)"
    by (simp add: startHideTimer_def stopHideTimer_idem)
  have 8: "pendingTimers (startHideTimer this) = [(nextId this, 3000)]"
    using 6 by (simp add: startHideTimer_def Let_def HIDE_TIMEOUT_def)
  have 9: "textData (stopCopy this) = None \<and> fetchPromise (stopCopy this) = None
     \<and> hideTimer (stopCopy this) = None \<and> pendingFetches (stopCopy this) = []
     \<and> pendingTimers (stopCopy this) = []"
    using tracked_stopCopy [OF t] by simp
  have 10: "startCopy ext this = startCopy ext (stopCopy this)"
    by (simp add: startCopy_def stopCopy_idem)
  show ?thesis
    unfolding Let_def this_def [symmetric]
    using t f 1 2 3 4 5 6 7 8 9 10 by simp
qed


end
